theory Spec2Isabelle
  imports Main "HOL-Library.Sublist"
begin

section \<open>The supervisor of the background worker (ProcessManager.ts)\<close>

text \<open>
  The class \<^verbatim>\<open>ProcessManager\<close> keeps two JSON files in its data directory,
  \<^verbatim>\<open>worker.pid\<close> and \<^verbatim>\<open>worker.lock\<close>, probes processes with \<^verbatim>\<open>process.kill(pid, 0)\<close>,
  reads the clock with \<^verbatim>\<open>Date.now()\<close> and waits on timers and on HTTP requests.
  The embedding passes the two files, the clock and a log of the outward actions around as
  an explicit \<open>world\<close>; what the operating system answers is read from an immutable
  \<open>env\<close> of functions of the clock, so that every theorem quantified over \<open>env\<close>
  holds whatever the processes, the network and the timers do.

  Conventions of the embedding:
  \<^item> the text of a file is represented by what \<^verbatim>\<open>JSON.parse\<close> makes of it
    (\<open>Garbage\<close> where it throws a SyntaxError); numbers are integers, as pids, ports,
    millisecond timestamps and the timeouts passed in the source are, and their arithmetic
    is exact;
  \<^item> the file operations fail only because a file is missing or exists already; the data
    directory itself can be read and written;
  \<^item> the clock moves only while the process waits (a timer or an HTTP request), and a
    timer of \<open>ms\<close> milliseconds moves it by at least \<open>ms\<close>; while the process waits,
    and when \<^verbatim>\<open>start\<close> resumes after \<^verbatim>\<open>await this.isRunning()\<close>, other processes may
    have rewritten both files (\<open>others\<close>);
  \<^item> every \<^verbatim>\<open>throw\<close> of the source is a branch of the model, returning what the
    enclosing \<^verbatim>\<open>catch\<close> returns.
\<close>

subsection \<open>JavaScript values\<close>

datatype jsval =
    JUndefined
  | JNull
  | JBool bool
  | JNum int
  | JStr string
  | JArr "jsval list"
  | JObj "(string \<times> jsval) list"

text \<open>\<^verbatim>\<open>v.k\<close>: a TypeError (\<open>None\<close>) on \<^verbatim>\<open>null\<close> and \<^verbatim>\<open>undefined\<close>, the own property
  of an object, and \<^verbatim>\<open>undefined\<close> for the keys read here on every other value.\<close>

fun get_prop :: "jsval \<Rightarrow> string \<Rightarrow> jsval option" where
  "get_prop JUndefined k = None"
| "get_prop JNull k = None"
| "get_prop (JObj kvs) k = Some (case map_of kvs k of None \<Rightarrow> JUndefined | Some x \<Rightarrow> x)"
| "get_prop (JBool b) k = Some JUndefined"
| "get_prop (JNum n) k = Some JUndefined"
| "get_prop (JStr s) k = Some JUndefined"
| "get_prop (JArr xs) k = Some JUndefined"

text \<open>The decimal digits of an integer.\<close>

definition digit :: "nat \<Rightarrow> char" where
  "digit d = ''0123456789'' ! d"

fun show_nat :: "nat \<Rightarrow> string" where
  "show_nat n = (if n < 10 then [digit n] else show_nat (n div 10) @ [digit (n mod 10)])"

definition show_int :: "int \<Rightarrow> string" where
  "show_int i = (if i < 0 then CHR ''-'' # show_nat (nat (- i)) else show_nat (nat i))"

subsection \<open>Files, the world and the environment\<close>

text \<open>What a file holds: text that \<^verbatim>\<open>JSON.parse\<close> rejects, or the value it returns. A
  file that does not exist is \<open>None\<close>.\<close>

datatype content = Garbage | Doc jsval

type_synonym json_file = "content option"

datatype platform = Win32 | Posix

datatype signal = SIGTERM | SIGKILL

text \<open>A readiness request ends with an HTTP status or is rejected (connection refused).
  The log of actions records what the supervisor does to the outside: \<open>Signal sig pid\<close>,
  \<open>Taskkill pid\<close>, \<open>Request port t\<close> (sent at time \<open>t\<close>), \<open>Spawn script port\<close> and
  \<open>PowerShell script port\<close>; the latest action comes first.\<close>

datatype fetch_outcome = Status int | NetworkError

datatype action =
    Signal signal int
  | Taskkill int
  | Request int int
  | Spawn string int
  | PowerShell string int

text \<open>\<^verbatim>\<open>spawn\<close> throws an error with a message, or returns a child whose \<^verbatim>\<open>pid\<close> may
  be undefined. Of the result of \<^verbatim>\<open>spawnSync('powershell', ...)\<close> the source reads the
  status (\<^verbatim>\<open>null\<close> is \<open>None\<close>), the text of stderr and
  \<^verbatim>\<open>parseInt(result.stdout.toString().trim(), 10)\<close> (NaN is \<open>None\<close>).\<close>

datatype spawn_outcome = SpawnThrows string | Child "int option"

record ps_result =
  ps_status :: "int option"
  ps_stderr :: "string option"
  ps_stdout_pid :: "int option"

record world =
  pid_file :: json_file
  lock_file :: json_file
  clock :: int
  actions :: "action list"

text \<open>
  The environment. \<open>kill0 env t v\<close> says that \<^verbatim>\<open>process.kill(v, 0)\<close> returns at time
  \<open>t\<close> (it throws otherwise); \<open>signal_ok\<close> the same for a real signal; \<open>http env t port\<close>
  is the answer of the readiness request sent at \<open>t\<close> and the milliseconds it takes;
  \<open>lag env t\<close> is what a timer set at \<open>t\<close> takes beyond its delay. \<open>to_number\<close> is
  ToNumber on strings, arrays and objects, \<open>date_ms v\<close> is \<^verbatim>\<open>new Date(v).getTime()\<close>
  (\<open>None\<close> for NaN) and \<open>iso_string\<close> is \<^verbatim>\<open>toISOString\<close>: library functions taken
  as parameters, like the paths and the launcher's answers. \<open>unsafe_number_string\<close> is
  what a template literal prints for an integer beyond \<^verbatim>\<open>Number.MAX_SAFE_INTEGER\<close>, where
  it rounds the digits and, from 1e21, switches to exponent notation.
\<close>

record env =
  self :: int
  platform :: platform
  kill0 :: "int \<Rightarrow> jsval \<Rightarrow> bool"
  signal_ok :: "int \<Rightarrow> signal \<Rightarrow> int \<Rightarrow> bool"
  http :: "int \<Rightarrow> int \<Rightarrow> fetch_outcome \<times> nat"
  lag :: "int \<Rightarrow> nat"
  others :: "int \<Rightarrow> json_file \<times> json_file \<Rightarrow> json_file \<times> json_file"
  to_number :: "jsval \<Rightarrow> int option"
  unsafe_number_string :: "int \<Rightarrow> string"
  date_ms :: "jsval \<Rightarrow> int option"
  iso_string :: "int \<Rightarrow> string"
  path_join :: "string list \<Rightarrow> string"
  homedir :: string
  DATA_DIR :: string
  exists_script :: "string \<Rightarrow> bool"
  bun_path :: "string option"
  npm_package_version :: "string option"
  spawn_child :: "int \<Rightarrow> spawn_outcome"
  spawn_powershell :: "int \<Rightarrow> ps_result"

text \<open>A number in a template literal, \<^verbatim>\<open>`${n}`\<close>: its decimal digits in the safe range.\<close>

definition number_string :: "env \<Rightarrow> int \<Rightarrow> string" where
  "number_string env n =
     (if - 9007199254740991 \<le> n \<and> n \<le> 9007199254740991 then show_int n
      else unsafe_number_string env n)"

subsection \<open>Timeout constants\<close>

definition PROCESS_STOP_TIMEOUT_MS :: int where "PROCESS_STOP_TIMEOUT_MS = 5000"
definition HEALTH_CHECK_TIMEOUT_MS :: int where "HEALTH_CHECK_TIMEOUT_MS = 10000"
definition HEALTH_CHECK_INTERVAL_MS :: int where "HEALTH_CHECK_INTERVAL_MS = 200"
definition HEALTH_CHECK_FETCH_TIMEOUT_MS :: int where "HEALTH_CHECK_FETCH_TIMEOUT_MS = 1000"
definition PROCESS_EXIT_CHECK_INTERVAL_MS :: int where "PROCESS_EXIT_CHECK_INTERVAL_MS = 100"
definition LOCK_STALE_TIMEOUT_MS :: int where "LOCK_STALE_TIMEOUT_MS = 30000"
definition LOCK_RETRY_INTERVAL_MS :: int where "LOCK_RETRY_INTERVAL_MS = 100"
definition LOCK_MAX_RETRIES :: nat where "LOCK_MAX_RETRIES = 50"

subsection \<open>Waiting\<close>

text \<open>The process waits \<open>d\<close> milliseconds: the other processes act on the files, the
  clock moves. \<open>sleep\<close> is \<^verbatim>\<open>await new Promise(resolve => setTimeout(resolve, ms))\<close>.\<close>

definition pause :: "env \<Rightarrow> int \<Rightarrow> world \<Rightarrow> world" where
  "pause env d w =
     (case others env (clock w) (pid_file w, lock_file w) of
        (p, l) \<Rightarrow> w\<lparr>pid_file := p, lock_file := l, clock := clock w + d\<rparr>)"

definition sleep :: "env \<Rightarrow> int \<Rightarrow> world \<Rightarrow> world" where
  "sleep env ms w = pause env (ms + int (lag env (clock w))) w"

subsection \<open>The lock manager\<close>

text \<open>ToNumber, for the subtraction \<^verbatim>\<open>Date.now() - lockInfo.timestamp\<close>; \<open>None\<close> is NaN.\<close>

definition js_number :: "env \<Rightarrow> jsval \<Rightarrow> int option" where
  "js_number env v =
     (case v of
        JNum n \<Rightarrow> Some n
      | JUndefined \<Rightarrow> None
      | JNull \<Rightarrow> Some 0
      | JBool b \<Rightarrow> Some (if b then 1 else 0)
      | JStr s \<Rightarrow> to_number env v
      | JArr xs \<Rightarrow> to_number env v
      | JObj kvs \<Rightarrow> to_number env v)"

text \<open>\<^verbatim>\<open>Date.now() - ts > LOCK_STALE_TIMEOUT_MS\<close>; a comparison with NaN is false.\<close>

definition too_old :: "env \<Rightarrow> world \<Rightarrow> jsval \<Rightarrow> bool" where
  "too_old env w ts =
     (case js_number env ts of
        None \<Rightarrow> False
      | Some t \<Rightarrow> clock w - t > LOCK_STALE_TIMEOUT_MS)"

definition unlink_lock :: "world \<Rightarrow> world" where
  "unlink_lock w = w\<lparr>lock_file := None\<rparr>"

definition cleanStaleLock :: "env \<Rightarrow> world \<Rightarrow> world" where
  "cleanStaleLock env w =
     (case lock_file w of
        None \<Rightarrow> w
      | Some Garbage \<Rightarrow> unlink_lock w
      | Some (Doc lockInfo) \<Rightarrow>
          (case get_prop lockInfo ''timestamp'' of
             None \<Rightarrow> unlink_lock w
           | Some ts \<Rightarrow>
               if too_old env w ts then unlink_lock w
               else (case get_prop lockInfo ''pid'' of
                       None \<Rightarrow> unlink_lock w
                     | Some p \<Rightarrow> if kill0 env (clock w) p then w else unlink_lock w)))"

text \<open>The token \<^verbatim>\<open>{ pid: process.pid, timestamp: Date.now() }\<close>.\<close>

definition lock_token :: "int \<Rightarrow> int \<Rightarrow> content" where
  "lock_token owner t = Doc (JObj [(''pid'', JNum owner), (''timestamp'', JNum t)])"

text \<open>\<^verbatim>\<open>openSync\<close> with \<^verbatim>\<open>O_CREAT | O_EXCL\<close> throws EEXIST when the file is there.\<close>

definition tryAcquireLock :: "env \<Rightarrow> world \<Rightarrow> bool \<times> world" where
  "tryAcquireLock env w =
     (let w1 = cleanStaleLock env w in
      case lock_file w1 of
        Some c \<Rightarrow> (False, w1)
      | None \<Rightarrow> (True, w1\<lparr>lock_file := Some (lock_token (self env) (clock w1))\<rparr>))"

definition releaseLock :: "env \<Rightarrow> world \<Rightarrow> world" where
  "releaseLock env w =
     (case lock_file w of
        None \<Rightarrow> w
      | Some Garbage \<Rightarrow> w
      | Some (Doc lockInfo) \<Rightarrow>
          (case get_prop lockInfo ''pid'' of
             None \<Rightarrow> w
           | Some p \<Rightarrow> if p = JNum (self env) then unlink_lock w else w))"

text \<open>The loop \<^verbatim>\<open>for (let i = 0; i < LOCK_MAX_RETRIES; i++)\<close>, by the rounds left.\<close>

fun acquireLock_rounds :: "env \<Rightarrow> nat \<Rightarrow> world \<Rightarrow> bool \<times> world" where
  "acquireLock_rounds env 0 w = (False, w)"
| "acquireLock_rounds env (Suc n) w =
     (case tryAcquireLock env w of
        (True, w1) \<Rightarrow> (True, w1)
      | (False, w1) \<Rightarrow> acquireLock_rounds env n (sleep env LOCK_RETRY_INTERVAL_MS w1))"

definition acquireLockWithRetry :: "env \<Rightarrow> world \<Rightarrow> bool \<times> world" where
  "acquireLockWithRetry env w = acquireLock_rounds env LOCK_MAX_RETRIES w"

subsection \<open>The lifecycle state store\<close>

text \<open>What \<^verbatim>\<open>getPidInfo\<close> hands out: the parsed value, cast to the interface
  \<^verbatim>\<open>PidInfo\<close> once \<^verbatim>\<open>pid\<close> and \<^verbatim>\<open>port\<close> are known to be numbers. The other two
  fields are whatever the file holds.\<close>

record PidInfo =
  info_pid :: int
  info_port :: int
  info_startedAt :: jsval
  info_version :: jsval

text \<open>\<^verbatim>\<open>typeof v === 'number'\<close>, with the number.\<close>

fun typeof_number :: "jsval \<Rightarrow> int option" where
  "typeof_number (JNum n) = Some n"
| "typeof_number JUndefined = None"
| "typeof_number JNull = None"
| "typeof_number (JBool b) = None"
| "typeof_number (JStr s) = None"
| "typeof_number (JArr xs) = None"
| "typeof_number (JObj kvs) = None"

definition getPidInfo :: "world \<Rightarrow> PidInfo option" where
  "getPidInfo w =
     (case pid_file w of
        None \<Rightarrow> None
      | Some Garbage \<Rightarrow> None
      | Some (Doc parsed) \<Rightarrow>
          (case get_prop parsed ''pid'' of
             None \<Rightarrow> None
           | Some p \<Rightarrow>
               (case typeof_number p of
                  None \<Rightarrow> None
                | Some a \<Rightarrow>
                    (case get_prop parsed ''port'' of
                       None \<Rightarrow> None
                     | Some q \<Rightarrow>
                         (case typeof_number q of
                            None \<Rightarrow> None
                          | Some b \<Rightarrow>
                              (case get_prop parsed ''startedAt'' of
                                 None \<Rightarrow> None
                               | Some s \<Rightarrow>
                                   (case get_prop parsed ''version'' of
                                      None \<Rightarrow> None
                                    | Some v \<Rightarrow>
                                        Some \<lparr>info_pid = a, info_port = b,
                                              info_startedAt = s, info_version = v\<rparr>)))))))"

text \<open>\<^verbatim>\<open>writeFileSync(PID_FILE, JSON.stringify(info, null, 2))\<close>, as it parses back.\<close>

definition pid_doc :: "PidInfo \<Rightarrow> content" where
  "pid_doc info =
     Doc (JObj [(''pid'', JNum (info_pid info)), (''port'', JNum (info_port info)),
                (''startedAt'', info_startedAt info), (''version'', info_version info)])"

definition writePidFile :: "PidInfo \<Rightarrow> world \<Rightarrow> world" where
  "writePidFile info w = w\<lparr>pid_file := Some (pid_doc info)\<rparr>"

definition removePidFile :: "world \<Rightarrow> world" where
  "removePidFile w = (case pid_file w of None \<Rightarrow> w | Some c \<Rightarrow> w\<lparr>pid_file := None\<rparr>)"

definition isProcessAlive :: "env \<Rightarrow> world \<Rightarrow> int \<Rightarrow> bool" where
  "isProcessAlive env w pid = kill0 env (clock w) (JNum pid)"

subsection \<open>The health prober\<close>

record LaunchResult =
  lr_success :: bool
  lr_pid :: "int option"
  lr_error :: "string option"

definition failure :: "string \<Rightarrow> LaunchResult" where
  "failure msg = \<lparr>lr_success = False, lr_pid = None, lr_error = Some msg\<rparr>"

definition newline :: string where
  "newline = [CHR 0x0A]"

definition troubleshooting :: "env \<Rightarrow> int \<Rightarrow> string" where
  "troubleshooting env port =
     newline @ newline @ ''Troubleshooting:'' @ newline
     @ ''1. Check Task Manager for zombie 'bun.exe' or 'node.exe' processes'' @ newline
     @ ''2. Verify port '' @ number_string env port
     @ '' is not in use: netstat -ano | findstr '' @ number_string env port @ newline
     @ ''3. Check worker logs in ~/.claude-mem/logs/'' @ newline
     @ ''4. See GitHub issues: #363, #367, #371, #373'' @ newline
     @ ''5. Docs: https://docs.claude-mem.ai/troubleshooting/windows-issues''"

definition died_msg :: "env \<Rightarrow> int \<Rightarrow> string" where
  "died_msg env port =
     (if platform env = Win32 then ''Process died during startup'' @ troubleshooting env port
      else ''Process died during startup'')"

definition timeout_msg :: "env \<Rightarrow> int \<Rightarrow> int \<Rightarrow> string" where
  "timeout_msg env port adjustedTimeout =
     (if platform env = Win32
      then ''Worker failed to start on Windows (readiness check timed out after ''
           @ number_string env adjustedTimeout @ ''ms)'' @ troubleshooting env port
      else ''Readiness check timed out after '' @ number_string env adjustedTimeout @ ''ms'')"

text \<open>\<^verbatim>\<open>response.ok\<close>: a status from 200 to 299.\<close>

definition response_ok :: "fetch_outcome \<Rightarrow> bool" where
  "response_ok out = (case out of Status s \<Rightarrow> 200 \<le> s \<and> s \<le> 299 | NetworkError \<Rightarrow> False)"

text \<open>One readiness request, aborted after \<^verbatim>\<open>HEALTH_CHECK_FETCH_TIMEOUT_MS\<close>. The result is
  whether \<^verbatim>\<open>response.ok\<close> was reached: a rejected or aborted \<^verbatim>\<open>fetch\<close> lands in the
  empty \<^verbatim>\<open>catch\<close>.\<close>

definition fetch_readiness :: "env \<Rightarrow> int \<Rightarrow> world \<Rightarrow> bool \<times> world" where
  "fetch_readiness env port w =
     (case http env (clock w) port of
        (out, d) \<Rightarrow>
          (let w0 = w\<lparr>actions := Request port (clock w) # actions w\<rparr> in
           if int d < HEALTH_CHECK_FETCH_TIMEOUT_MS
           then (response_ok out, pause env (int d) w0)
           else (False, pause env HEALTH_CHECK_FETCH_TIMEOUT_MS w0)))"

function waitForHealth_loop ::
  "env \<Rightarrow> int \<Rightarrow> int \<Rightarrow> int \<Rightarrow> int \<Rightarrow> world \<Rightarrow> LaunchResult \<times> world" where
  "waitForHealth_loop env pid port startTime adjustedTimeout w =
     (if clock w - startTime < adjustedTimeout then
        if \<not> isProcessAlive env w pid then (failure (died_msg env port), w)
        else (case fetch_readiness env port w of
                (True, w1) \<Rightarrow> (\<lparr>lr_success = True, lr_pid = Some pid, lr_error = None\<rparr>, w1)
              | (False, w1) \<Rightarrow>
                  waitForHealth_loop env pid port startTime adjustedTimeout
                    (sleep env HEALTH_CHECK_INTERVAL_MS w1))
      else (failure (timeout_msg env port adjustedTimeout), w))"
  by pat_completeness auto
termination
proof (relation "measure (\<lambda>(env, pid, port, startTime, adjustedTimeout, w).
                   nat (startTime + adjustedTimeout - clock w))")
qed (auto simp: fetch_readiness_def pause_def sleep_def Let_def
          HEALTH_CHECK_FETCH_TIMEOUT_MS_def HEALTH_CHECK_INTERVAL_MS_def
          split: prod.splits if_splits)

declare waitForHealth_loop.simps [simp del]

text \<open>\<^verbatim>\<open>isWindows ? timeoutMs * 2 : timeoutMs\<close>.\<close>

definition adjusted_timeout :: "env \<Rightarrow> int \<Rightarrow> int" where
  "adjusted_timeout env timeoutMs = (if platform env = Win32 then timeoutMs * 2 else timeoutMs)"

text \<open>\<^verbatim>\<open>timeoutMs\<close> defaults to \<^verbatim>\<open>HEALTH_CHECK_TIMEOUT_MS\<close>; both calls in the source
  leave it out, and pass the default here.\<close>

definition waitForHealth :: "env \<Rightarrow> int \<Rightarrow> int \<Rightarrow> int \<Rightarrow> world \<Rightarrow> LaunchResult \<times> world" where
  "waitForHealth env pid port timeoutMs w =
     (let startTime = clock w;
          adjustedTimeout = adjusted_timeout env timeoutMs
      in waitForHealth_loop env pid port startTime adjustedTimeout w)"

subsection \<open>The process launcher\<close>

definition MARKETPLACE_ROOT :: "env \<Rightarrow> string" where
  "MARKETPLACE_ROOT env =
     path_join env [homedir env, ''.claude'', ''plugins'', ''marketplaces'', ''thedotmack'']"

definition LOG_DIR :: "env \<Rightarrow> string" where
  "LOG_DIR env = path_join env [DATA_DIR env, ''logs'']"

definition getLogFilePath :: "env \<Rightarrow> world \<Rightarrow> string" where
  "getLogFilePath env w =
     path_join env [LOG_DIR env, ''worker-'' @ take 10 (iso_string env (clock w)) @ ''.log'']"

text \<open>\<^verbatim>\<open>!s\<close> and \<^verbatim>\<open>s || fallback\<close> on a string that may be missing: the empty
  string is falsy.\<close>

definition falsy :: "string option \<Rightarrow> bool" where
  "falsy s = (case s of None \<Rightarrow> True | Some x \<Rightarrow> x = [])"

definition or_else :: "string option \<Rightarrow> string \<Rightarrow> string" where
  "or_else s fallback = (case s of None \<Rightarrow> fallback | Some x \<Rightarrow> if x = [] then fallback else x)"

definition new_info :: "env \<Rightarrow> world \<Rightarrow> int \<Rightarrow> int \<Rightarrow> PidInfo" where
  "new_info env w pid port =
     \<lparr>info_pid = pid, info_port = port,
      info_startedAt = JStr (iso_string env (clock w)),
      info_version = JStr (or_else (npm_package_version env) ''unknown'')\<rparr>"

text \<open>The child's output is piped to \<open>logFile\<close>; nothing else is done with it.\<close>

definition startWithBun ::
  "env \<Rightarrow> string \<Rightarrow> string \<Rightarrow> int \<Rightarrow> world \<Rightarrow> LaunchResult \<times> world" where
  "startWithBun env script logFile port w =
     (if falsy (bun_path env)
      then (failure (''Bun is required but not found in PATH or common installation paths. ''
                     @ ''Install from https://bun.sh''), w)
      else if platform env = Win32 then
        (let result = spawn_powershell env (clock w);
             w1 = w\<lparr>actions := PowerShell script port # actions w\<rparr>
         in if ps_status result \<noteq> Some 0
            then (failure (''PowerShell spawn failed: ''
                           @ or_else (ps_stderr result) ''unknown error''), w1)
            else (case ps_stdout_pid result of
                    None \<Rightarrow> (failure ''Failed to get PID from PowerShell'', w1)
                  | Some pid \<Rightarrow>
                      waitForHealth env pid port HEALTH_CHECK_TIMEOUT_MS
                        (writePidFile (new_info env w1 pid port) w1)))
      else
        (case spawn_child env (clock w) of
           SpawnThrows msg \<Rightarrow> (failure msg, w)
         | Child child_pid \<Rightarrow>
             (let w1 = w\<lparr>actions := Spawn script port # actions w\<rparr> in
              case child_pid of
                None \<Rightarrow> (failure ''Failed to get PID from spawned process'', w1)
              | Some pid \<Rightarrow>
                  if pid = 0 then (failure ''Failed to get PID from spawned process'', w1)
                  else waitForHealth env pid port HEALTH_CHECK_TIMEOUT_MS
                         (writePidFile (new_info env w1 pid port) w1))))"

subsection \<open>The supervisor API\<close>

definition isRunning :: "env \<Rightarrow> world \<Rightarrow> bool \<times> world" where
  "isRunning env w =
     (case getPidInfo w of
        None \<Rightarrow> (False, w)
      | Some info \<Rightarrow>
          (let alive = isProcessAlive env w (info_pid info) in
           if \<not> alive then (alive, removePidFile w) else (alive, w)))"

text \<open>\<^verbatim>\<open>await this.isRunning()\<close> in \<^verbatim>\<open>start\<close>: when the caller resumes, the other
  processes may have rewritten the files, which no lock protects; it reads the state file
  again only then.\<close>

definition await_isRunning :: "env \<Rightarrow> world \<Rightarrow> bool \<times> world" where
  "await_isRunning env w = (case isRunning env w of (b, w1) \<Rightarrow> (b, pause env 0 w1))"

text \<open>\<^verbatim>\<open>{ success: true, pid: info?.pid }\<close> with \<^verbatim>\<open>info = this.getPidInfo()\<close>: the pid is
  undefined when the state file holds no valid record any more.\<close>

definition already_running :: "world \<Rightarrow> LaunchResult" where
  "already_running w =
     \<lparr>lr_success = True, lr_pid = map_option info_pid (getPidInfo w), lr_error = None\<rparr>"

definition workerScript :: "env \<Rightarrow> string" where
  "workerScript env =
     path_join env [MARKETPLACE_ROOT env, ''plugin'', ''scripts'',
       if platform env = Win32 then ''worker-wrapper.cjs'' else ''worker-service.cjs'']"

text \<open>The body of the \<^verbatim>\<open>try\<close> of \<^verbatim>\<open>start\<close>, run with the lock held.\<close>

definition start_locked :: "env \<Rightarrow> int \<Rightarrow> world \<Rightarrow> LaunchResult \<times> world" where
  "start_locked env port w =
     (case await_isRunning env w of
        (True, w1) \<Rightarrow> (already_running w1, w1)
      | (False, w1) \<Rightarrow>
          if \<not> exists_script env (workerScript env)
          then (failure (''Worker script not found at '' @ workerScript env), w1)
          else startWithBun env (workerScript env) (getLogFilePath env w1) port w1)"

text \<open>\<^verbatim>\<open>start(port)\<close>; the port is a JavaScript number, \<open>None\<close> for NaN.\<close>

definition start :: "env \<Rightarrow> int option \<Rightarrow> world \<Rightarrow> LaunchResult \<times> world" where
  "start env port w =
     (case port of
        None \<Rightarrow> (failure ''Invalid port NaN. Must be between 1024 and 65535'', w)
      | Some p \<Rightarrow>
          if p < 1024 \<or> p > 65535
          then (failure (''Invalid port '' @ number_string env p
                         @ ''. Must be between 1024 and 65535''), w)
          else
            (case await_isRunning env w of
               (True, w1) \<Rightarrow> (already_running w1, w1)
             | (False, w1) \<Rightarrow>
                 (case acquireLockWithRetry env w1 of
                    (False, w2) \<Rightarrow>
                      (case await_isRunning env (sleep env HEALTH_CHECK_TIMEOUT_MS w2) of
                         (True, w3) \<Rightarrow> (already_running w3, w3)
                       | (False, w3) \<Rightarrow>
                           (failure ''Failed to acquire startup lock and worker not running'', w3))
                  | (True, w2) \<Rightarrow>
                      (case start_locked env p w2 of
                         (r, w3) \<Rightarrow> (r, releaseLock env w3)))))"

definition send_signal :: "env \<Rightarrow> signal \<Rightarrow> int \<Rightarrow> world \<Rightarrow> bool \<times> world" where
  "send_signal env sig pid w =
     (signal_ok env (clock w) sig pid, w\<lparr>actions := Signal sig pid # actions w\<rparr>)"

text \<open>\<^verbatim>\<open>waitForExit\<close>: \<open>True\<close> when it returns, \<open>False\<close> when it throws
  \<^verbatim>\<open>'Process did not exit within timeout'\<close>.\<close>

function waitForExit_loop :: "env \<Rightarrow> int \<Rightarrow> int \<Rightarrow> int \<Rightarrow> world \<Rightarrow> bool \<times> world" where
  "waitForExit_loop env pid startTime timeout w =
     (if clock w - startTime < timeout then
        if \<not> isProcessAlive env w pid then (True, w)
        else waitForExit_loop env pid startTime timeout
               (sleep env PROCESS_EXIT_CHECK_INTERVAL_MS w)
      else (False, w))"
  by pat_completeness auto
termination
proof (relation "measure (\<lambda>(env, pid, startTime, timeout, w).
                   nat (startTime + timeout - clock w))")
qed (auto simp: pause_def sleep_def PROCESS_EXIT_CHECK_INTERVAL_MS_def split: prod.splits)

declare waitForExit_loop.simps [simp del]

definition waitForExit :: "env \<Rightarrow> int \<Rightarrow> int \<Rightarrow> world \<Rightarrow> bool \<times> world" where
  "waitForExit env pid timeout w = waitForExit_loop env pid (clock w) timeout w"

text \<open>The \<^verbatim>\<open>catch\<close> of \<^verbatim>\<open>stop\<close>: SIGKILL, whose own failure is ignored.\<close>

definition force_kill :: "env \<Rightarrow> int \<Rightarrow> world \<Rightarrow> world" where
  "force_kill env pid w = snd (send_signal env SIGKILL pid w)"

text \<open>The \<^verbatim>\<open>try\<close> of \<^verbatim>\<open>stop\<close> with its \<^verbatim>\<open>catch\<close>: on Windows \<^verbatim>\<open>taskkill /T /F\<close>,
  whose failure is ignored; elsewhere SIGTERM and the wait, and the forced kill when
  either throws.\<close>

definition terminate :: "env \<Rightarrow> int \<Rightarrow> int \<Rightarrow> world \<Rightarrow> world" where
  "terminate env pid timeout w =
     (if platform env = Win32 then w\<lparr>actions := Taskkill pid # actions w\<rparr>
      else (case send_signal env SIGTERM pid w of
              (False, w1) \<Rightarrow> force_kill env pid w1
            | (True, w1) \<Rightarrow>
                (case waitForExit env pid timeout w1 of
                   (True, w2) \<Rightarrow> w2
                 | (False, w2) \<Rightarrow> force_kill env pid w2)))"

definition stop :: "env \<Rightarrow> int \<Rightarrow> world \<Rightarrow> bool \<times> world" where
  "stop env timeout w =
     (case getPidInfo w of
        None \<Rightarrow> (True, w)
      | Some info \<Rightarrow> (True, removePidFile (terminate env (info_pid info) timeout w)))"

definition restart :: "env \<Rightarrow> int option \<Rightarrow> world \<Rightarrow> LaunchResult \<times> world" where
  "restart env port w = start env port (snd (stop env PROCESS_STOP_TIMEOUT_MS w))"

record StatusResult =
  st_running :: bool
  st_pid :: "int option"
  st_port :: "int option"
  st_uptime :: "string option"

definition formatUptime :: "env \<Rightarrow> world \<Rightarrow> jsval \<Rightarrow> string" where
  "formatUptime env w startedAt =
     (case date_ms env startedAt of
        None \<Rightarrow> ''NaNs''
      | Some startTime \<Rightarrow>
          (let diffMs = clock w - startTime;
               seconds = diffMs div 1000;
               minutes = seconds div 60;
               hours = minutes div 60;
               days = hours div 24
           in if days > 0
              then number_string env days @ ''d '' @ number_string env (hours mod 24) @ ''h''
              else if hours > 0
              then number_string env hours @ ''h '' @ number_string env (minutes mod 60) @ ''m''
              else if minutes > 0
              then number_string env minutes @ ''m '' @ number_string env (seconds mod 60) @ ''s''
              else number_string env seconds @ ''s''))"

definition status :: "env \<Rightarrow> world \<Rightarrow> StatusResult \<times> world" where
  "status env w =
     (case getPidInfo w of
        None \<Rightarrow> (\<lparr>st_running = False, st_pid = None, st_port = None, st_uptime = None\<rparr>, w)
      | Some info \<Rightarrow>
          (let running = isProcessAlive env w (info_pid info) in
           (\<lparr>st_running = running,
             st_pid = (if running then Some (info_pid info) else None),
             st_port = (if running then Some (info_port info) else None),
             st_uptime = (if running then Some (formatUptime env w (info_startedAt info))
                          else None)\<rparr>, w)))"

subsection \<open>Notions the properties are stated with\<close>



text \<open>The world at the next head of the polling loop, after a round that sent its
  readiness request and slept; and \<open>k\<close> rounds in a row in which the loop was within its
  deadline, the worker was alive and the request did not reach a 2xx answer.\<close>

definition poll_round :: "env \<Rightarrow> int \<Rightarrow> world \<Rightarrow> world" where
  "poll_round env port w = sleep env HEALTH_CHECK_INTERVAL_MS (snd (fetch_readiness env port w))"

fun unready_rounds :: "env \<Rightarrow> int \<Rightarrow> int \<Rightarrow> int \<Rightarrow> int \<Rightarrow> nat \<Rightarrow> world \<Rightarrow> bool" where
  "unready_rounds env pid port startTime adjustedTimeout 0 w = True"
| "unready_rounds env pid port startTime adjustedTimeout (Suc k) w =
     (clock w - startTime < adjustedTimeout \<and> isProcessAlive env w pid
      \<and> \<not> fst (fetch_readiness env port w)
      \<and> unready_rounds env pid port startTime adjustedTimeout k (poll_round env port w))"

text \<open>The message of a failed launch names a pid when the pid's decimal digits stand in
  it.\<close>

definition names_pid :: "LaunchResult \<Rightarrow> int \<Rightarrow> bool" where
  "names_pid r pid =
     (case lr_error r of None \<Rightarrow> False | Some msg \<Rightarrow> sublist (show_int pid) msg)"

subsection \<open>Concrete environments and worlds\<close>

text \<open>A POSIX machine on which the caller is process 100, process 4242 is alive too and
  answers signals, nothing listens on any port, timers are exact and no other process
  touches the files. The theorems are instantiated on it and on variations of it.\<close>

definition epoch :: string where
  "epoch = ''1970-01-01T00:00:00.000Z''"

definition example_env :: env where
  "example_env =
     \<lparr>self = 100, platform = Posix,
      kill0 = (\<lambda>t v. v = JNum 100 \<or> v = JNum 4242),
      signal_ok = (\<lambda>t s p. p = 4242),
      http = (\<lambda>t port. (NetworkError, 5)),
      lag = (\<lambda>t. 0),
      others = (\<lambda>t fs. fs),
      to_number = (\<lambda>v. None),
      unsafe_number_string = (\<lambda>n. ''1e+21''),
      date_ms = (\<lambda>v. if v = JStr epoch then Some 0 else None),
      iso_string = (\<lambda>t. epoch),
      path_join = (\<lambda>ps. concat (map (\<lambda>p. CHR ''/'' # p) ps)),
      homedir = ''home'',
      DATA_DIR = ''home/.claude-mem'',
      exists_script = (\<lambda>p. True),
      bun_path = Some ''bun'',
      npm_package_version = None,
      spawn_child = (\<lambda>t. Child (Some 4242)),
      spawn_powershell =
        (\<lambda>t. \<lparr>ps_status = Some 0, ps_stderr = None, ps_stdout_pid = Some 4242\<rparr>)\<rparr>"

text \<open>Variations: the worker answers after a refused request and one that outlasts the
  per-attempt timeout; the worker dies 400 ms after the start; every timer is 4795 ms
  late, so that a polling round takes 5000 ms; another process writes the state file of a
  running worker 4000 ms after the start; another process, stopping the worker, removes
  the state file.\<close>

definition slow_start_env :: env where
  "slow_start_env =
     example_env\<lparr>http := (\<lambda>t port. if t < 200 then (NetworkError, 5)
                                  else if t < 1000 then (Status 200, 1500)
                                  else (Status 200, 5))\<rparr>"

definition dying_env :: env where
  "dying_env = example_env\<lparr>kill0 := (\<lambda>t v. v = JNum 100 \<or> (v = JNum 4242 \<and> t < 400))\<rparr>"

definition lagging_env :: env where
  "lagging_env = example_env\<lparr>lag := (\<lambda>t. 4795)\<rparr>"



definition empty_world :: world where
  "empty_world = \<lparr>pid_file = None, lock_file = None, clock = 0, actions = []\<rparr>"

text \<open>The lock taken by \<open>owner\<close> at time \<open>t\<close>, in an otherwise empty world.\<close>

definition held_by :: "int \<Rightarrow> int \<Rightarrow> world" where
  "held_by owner t = empty_world\<lparr>lock_file := Some (lock_token owner t)\<rparr>"

text \<open>The state file of a worker \<open>pid\<close> on \<open>port\<close> started at the epoch, and the world
  that holds it at time \<open>t\<close>.\<close>

definition worker_doc :: "int \<Rightarrow> int \<Rightarrow> content" where
  "worker_doc pid port =
     pid_doc \<lparr>info_pid = pid, info_port = port,
              info_startedAt = JStr epoch, info_version = JStr ''unknown''\<rparr>"

definition world_with_worker :: "int \<Rightarrow> int \<Rightarrow> int \<Rightarrow> world" where
  "world_with_worker pid port t =
     empty_world\<lparr>pid_file := Some (worker_doc pid port), clock := t\<rparr>"

text \<open>The schema of WorkerState in the words of the specification and of the interface
  \<^verbatim>\<open>PidInfo\<close>: \<open>pid\<close> and \<open>port\<close> are numbers, \<open>startedAt\<close> and \<open>version\<close> are
  strings. It is what the claim about the state store is compared with; no function of
  the source computes it.\<close>

definition is_num :: "jsval \<Rightarrow> bool" where
  "is_num v = (case v of JNum n \<Rightarrow> True | _ \<Rightarrow> False)"

definition is_str :: "jsval \<Rightarrow> bool" where
  "is_str v = (case v of JStr s \<Rightarrow> True | _ \<Rightarrow> False)"

definition field_is :: "(jsval \<Rightarrow> bool) \<Rightarrow> jsval \<Rightarrow> string \<Rightarrow> bool" where
  "field_is P v k = (case get_prop v k of None \<Rightarrow> False | Some x \<Rightarrow> P x)"

definition matches_PidInfo :: "jsval \<Rightarrow> bool" where
  "matches_PidInfo v =
     (field_is is_num v ''pid'' \<and> field_is is_num v ''port''
      \<and> field_is is_str v ''startedAt'' \<and> field_is is_str v ''version'')"

text \<open>A state file whose \<open>startedAt\<close> is a number.\<close>

definition mistyped_doc :: jsval where
  "mistyped_doc =
     JObj [(''pid'', JNum 4242), (''port'', JNum 37777),
           (''startedAt'', JNum 5), (''version'', JStr ''9.0.0'')]"


section \<open>Properties\<close>

subsection \<open>The lock manager\<close>

lemma cleanStaleLock_absent: "lock_file w = None \<Longrightarrow> cleanStaleLock env w = w"
  by (simp add: cleanStaleLock_def)

text \<open>
  Claim C2. Starting with no lock file, two calls of \<open>tryAcquireLock\<close> by the same caller
  with no release in between return true, then false: the first writes the caller's token
  with the clock's reading, the second finds it. The second finds the token valid because
  it is not stale and its owner, the caller itself, is alive. Two calls in a row read the
  same clock, \<open>t2 = clock w\<close>; the theorem covers every reading \<open>t2\<close> of the second
  call up to 30000 ms after the first. Both worlds are given in full.
\<close>

theorem tryAcquireLock_exclusive:
  assumes "lock_file w = None"
    and "t2 - clock w \<le> 30000"
    and "kill0 env t2 (JNum (self env))"
  shows "tryAcquireLock env w
           = (True, w\<lparr>lock_file := Some (lock_token (self env) (clock w))\<rparr>)
       \<and> tryAcquireLock env
             (w\<lparr>lock_file := Some (lock_token (self env) (clock w)), clock := t2\<rparr>)
           = (False, w\<lparr>lock_file := Some (lock_token (self env) (clock w)), clock := t2\<rparr>)"
  using assms
  by (simp add: tryAcquireLock_def cleanStaleLock_def lock_token_def too_old_def js_number_def
        LOCK_STALE_TIMEOUT_MS_def Let_def)

theorem tryAcquireLock_exclusive_witness:
  "tryAcquireLock example_env empty_world = (True, held_by 100 0)
   \<and> tryAcquireLock example_env (held_by 100 0) = (False, held_by 100 0)
   \<and> tryAcquireLock example_env ((held_by 100 0)\<lparr>clock := 30000\<rparr>)
       = (False, (held_by 100 0)\<lparr>clock := 30000\<rparr>)"
  using tryAcquireLock_exclusive [of empty_world 0 example_env]
        tryAcquireLock_exclusive [of empty_world 30000 example_env]
  by (simp add: held_by_def empty_world_def example_env_def)

text \<open>Past the threshold the caller's own token is reclaimed like any other: the bound on
  \<open>t2\<close> above is needed.\<close>

lemma tryAcquireLock_after_threshold:
  "tryAcquireLock example_env ((held_by 100 0)\<lparr>clock := 30001\<rparr>)
     = (True, (held_by 100 30001)\<lparr>clock := 30001\<rparr>)"
  by (simp add: tryAcquireLock_def cleanStaleLock_def too_old_def js_number_def
        LOCK_STALE_TIMEOUT_MS_def unlink_lock_def Let_def held_by_def empty_world_def
        example_env_def lock_token_def)

text \<open>
  Claim C3. A lock token whose age, the clock minus the recorded timestamp, exceeds
  30000 ms is removed by \<open>tryAcquireLock\<close>, which then takes the lock for its caller and
  returns true. Nothing is assumed about the recorded owner: the age is tested before the
  owner is probed, so the owner may be alive and may be another process than the caller.
\<close>

theorem tryAcquireLock_reclaims_old_token:
  assumes "lock_file w = Some (Doc tok)"
    and "get_prop tok ''timestamp'' = Some (JNum ts)"
    and "clock w - ts > 30000"
  shows "tryAcquireLock env w
           = (True, w\<lparr>lock_file := Some (lock_token (self env) (clock w))\<rparr>)"
  using assms
  by (simp add: tryAcquireLock_def cleanStaleLock_def too_old_def js_number_def
        LOCK_STALE_TIMEOUT_MS_def unlink_lock_def Let_def)

theorem tryAcquireLock_reclaims_old_token_witness:
  "kill0 example_env 30001 (JNum 4242) \<and> self example_env \<noteq> 4242
   \<and> tryAcquireLock example_env ((held_by 4242 0)\<lparr>clock := 30001\<rparr>)
       = (True, (held_by 100 30001)\<lparr>clock := 30001\<rparr>)"
  using tryAcquireLock_reclaims_old_token
          [of "(held_by 4242 0)\<lparr>clock := 30001\<rparr>"
              "JObj [(''pid'', JNum 4242), (''timestamp'', JNum 0)]" 0 example_env]
  by (simp add: held_by_def empty_world_def example_env_def lock_token_def)

text \<open>
  Claim C4. \<open>releaseLock\<close> leaves the world as it is when the lock file records an owner
  other than the calling process (any value but the caller's pid); it removes the file
  when the recorded owner is the caller; and whenever it changes the lock file at all,
  the file held a token whose recorded owner was the caller.
\<close>

theorem releaseLock_owner_only:
  "(lock_file w = Some (Doc tok) \<and> get_prop tok ''pid'' \<noteq> Some (JNum (self env))
      \<longrightarrow> releaseLock env w = w)
   \<and> (lock_file w = Some (Doc tok) \<and> get_prop tok ''pid'' = Some (JNum (self env))
      \<longrightarrow> releaseLock env w = w\<lparr>lock_file := None\<rparr>)
   \<and> (lock_file (releaseLock env w) \<noteq> lock_file w
      \<longrightarrow> (\<exists>tok'. lock_file w = Some (Doc tok')
                  \<and> get_prop tok' ''pid'' = Some (JNum (self env))))"
  by (auto simp: releaseLock_def unlink_lock_def split: option.splits content.splits)

theorem releaseLock_owner_only_witness:
  "releaseLock example_env (held_by 200 0) = held_by 200 0
   \<and> lock_file (held_by 200 0) = Some (lock_token 200 0)
   \<and> releaseLock example_env (held_by 100 0) = empty_world
   \<and> lock_file (releaseLock example_env (held_by 100 0)) \<noteq> lock_file (held_by 100 0)"
  using releaseLock_owner_only
          [of "held_by 200 0" "JObj [(''pid'', JNum 200), (''timestamp'', JNum 0)]" example_env]
        releaseLock_owner_only
          [of "held_by 100 0" "JObj [(''pid'', JNum 100), (''timestamp'', JNum 0)]" example_env]
  by (simp add: held_by_def empty_world_def example_env_def lock_token_def)

subsection \<open>The state store\<close>

lemma typeof_number_Some [simp]: "typeof_number v = Some n \<longleftrightarrow> v = JNum n"
  by (cases v) auto

lemma typeof_number_None: "typeof_number v = None \<longleftrightarrow> (\<forall>n. v \<noteq> JNum n)"
  by (cases v) auto

lemma getPidInfo_None_iff:
  "getPidInfo w = None \<longleftrightarrow>
     (pid_file w = None \<or> pid_file w = Some Garbage
      \<or> (\<exists>v. pid_file w = Some (Doc v)
              \<and> \<not> (\<exists>a b. get_prop v ''pid'' = Some (JNum a)
                           \<and> get_prop v ''port'' = Some (JNum b))))"
proof (cases "pid_file w")
  case None
  then show ?thesis by (simp add: getPidInfo_def)
next
  case (Some c)
  show ?thesis
  proof (cases c)
    case Garbage
    with Some show ?thesis by (simp add: getPidInfo_def)
  next
    case (Doc v)
    with Some show ?thesis
      by (cases v) (auto simp: getPidInfo_def typeof_number_None split: option.splits)
  qed
qed

lemma getPidInfo_Some:
  assumes "pid_file w = Some (Doc v)"
    and "get_prop v ''pid'' = Some (JNum a)"
    and "get_prop v ''port'' = Some (JNum b)"
  shows "\<exists>s ver. get_prop v ''startedAt'' = Some s \<and> get_prop v ''version'' = Some ver
           \<and> getPidInfo w = Some \<lparr>info_pid = a, info_port = b,
                                   info_startedAt = s, info_version = ver\<rparr>"
  using assms by (cases v) (auto simp: getPidInfo_def)

text \<open>
  Claim C8, as the code has it. \<open>getPidInfo\<close> is a total function into an option: every
  exception of its body (a missing file, a SyntaxError of \<^verbatim>\<open>JSON.parse\<close>, a TypeError on
  \<^verbatim>\<open>null\<close>) is caught and becomes \<open>None\<close>. It returns \<open>None\<close> exactly when the file is
  missing, is unparsable, or parses to a value whose \<open>pid\<close> or \<open>port\<close> is not a number;
  otherwise it returns the stored record with its \<open>startedAt\<close> and \<open>version\<close> as they
  are, whatever their types.
\<close>

theorem getPidInfo_absent_iff:
  "(getPidInfo w = None \<longleftrightarrow>
      (pid_file w = None \<or> pid_file w = Some Garbage
       \<or> (\<exists>v. pid_file w = Some (Doc v)
               \<and> \<not> (\<exists>a b. get_prop v ''pid'' = Some (JNum a)
                            \<and> get_prop v ''port'' = Some (JNum b)))))
   \<and> (\<forall>v a b. pid_file w = Some (Doc v) \<and> get_prop v ''pid'' = Some (JNum a)
                \<and> get_prop v ''port'' = Some (JNum b)
        \<longrightarrow> (\<exists>s ver. get_prop v ''startedAt'' = Some s \<and> get_prop v ''version'' = Some ver
                \<and> getPidInfo w = Some \<lparr>info_pid = a, info_port = b,
                                        info_startedAt = s, info_version = ver\<rparr>))"
  using getPidInfo_None_iff [of w] getPidInfo_Some [of w] by blast

theorem getPidInfo_absent_iff_witness:
  "getPidInfo empty_world = None
   \<and> getPidInfo (empty_world\<lparr>pid_file := Some Garbage\<rparr>) = None
   \<and> getPidInfo (empty_world\<lparr>pid_file := Some (Doc JNull)\<rparr>) = None
   \<and> getPidInfo (empty_world\<lparr>pid_file :=
        Some (Doc (JObj [(''pid'', JStr ''4242''), (''port'', JNum 37777)]))\<rparr>) = None
   \<and> getPidInfo (world_with_worker 4242 37777 0)
       = Some \<lparr>info_pid = 4242, info_port = 37777,
               info_startedAt = JStr epoch, info_version = JStr ''unknown''\<rparr>"
  using getPidInfo_absent_iff [of empty_world]
        getPidInfo_absent_iff [of "empty_world\<lparr>pid_file := Some Garbage\<rparr>"]
        getPidInfo_absent_iff [of "world_with_worker 4242 37777 0"]
  by (simp add: getPidInfo_def empty_world_def world_with_worker_def worker_doc_def pid_doc_def)

text \<open>The claim's third case fails where the mistyped field is \<open>startedAt\<close> (or
  \<open>version\<close>): the file does not match the schema, and is returned all the same.\<close>

theorem getPidInfo_mistyped_counterexample:
  "\<not> matches_PidInfo mistyped_doc
   \<and> getPidInfo (empty_world\<lparr>pid_file := Some (Doc mistyped_doc)\<rparr>)
       = Some \<lparr>info_pid = 4242, info_port = 37777,
               info_startedAt = JNum 5, info_version = JStr ''9.0.0''\<rparr>"
  by (simp add: matches_PidInfo_def field_is_def is_num_def is_str_def mistyped_doc_def
        getPidInfo_def empty_world_def)

subsection \<open>status, isRunning and stop\<close>

text \<open>
  Claim C1, as the code has it. With a stored WorkerState whose pid is not alive,
  \<open>status\<close> reports not-running, with no pid, port or uptime, and leaves the world, the
  state file included, as it was; the stale record is deleted by \<open>isRunning\<close>. With a
  stored WorkerState whose pid is alive, \<open>status\<close> reports running with that pid, that
  port and the uptime \<open>formatUptime\<close> derives from \<open>startedAt\<close>.
\<close>

theorem status_reports:
  assumes "getPidInfo w = Some info"
  shows "(\<not> isProcessAlive env w (info_pid info) \<longrightarrow>
            status env w
              = (\<lparr>st_running = False, st_pid = None, st_port = None, st_uptime = None\<rparr>, w)
            \<and> isRunning env w = (False, w\<lparr>pid_file := None\<rparr>))
       \<and> (isProcessAlive env w (info_pid info) \<longrightarrow>
            status env w
              = (\<lparr>st_running = True, st_pid = Some (info_pid info),
                  st_port = Some (info_port info),
                  st_uptime = Some (formatUptime env w (info_startedAt info))\<rparr>, w))"
  using assms
  by (auto simp: status_def isRunning_def removePidFile_def getPidInfo_def Let_def
           split: option.splits)

theorem status_reports_witness:
  "status example_env (world_with_worker 4242 37777 3723000)
     = (\<lparr>st_running = True, st_pid = Some 4242, st_port = Some 37777,
         st_uptime = Some ''1h 2m''\<rparr>, world_with_worker 4242 37777 3723000)
   \<and> status example_env (world_with_worker 999 37777 0)
     = (\<lparr>st_running = False, st_pid = None, st_port = None, st_uptime = None\<rparr>,
        world_with_worker 999 37777 0)
   \<and> isRunning example_env (world_with_worker 999 37777 0) = (False, empty_world)"
  using status_reports
          [of "world_with_worker 4242 37777 3723000"
              "\<lparr>info_pid = 4242, info_port = 37777,
                info_startedAt = JStr epoch, info_version = JStr ''unknown''\<rparr>" example_env]
        status_reports
          [of "world_with_worker 999 37777 0"
              "\<lparr>info_pid = 999, info_port = 37777,
                info_startedAt = JStr epoch, info_version = JStr ''unknown''\<rparr>" example_env]
  by (simp add: getPidInfo_def isProcessAlive_def formatUptime_def number_string_def
        show_int_def digit_def
        world_with_worker_def worker_doc_def pid_doc_def empty_world_def example_env_def)

text \<open>The stale record survives \<open>status\<close>: process 999 is dead, \<open>status\<close> says so and
  the state file is still there.\<close>

theorem status_keeps_stale_state_counterexample:
  "\<not> isProcessAlive example_env (world_with_worker 999 37777 0) 999
   \<and> \<not> st_running (fst (status example_env (world_with_worker 999 37777 0)))
   \<and> pid_file (snd (status example_env (world_with_worker 999 37777 0)))
       = Some (worker_doc 999 37777)"
  by (simp add: status_def getPidInfo_def isProcessAlive_def
        world_with_worker_def worker_doc_def pid_doc_def empty_world_def example_env_def)

text \<open>
  Claim C7. Without a WorkerState record \<open>stop\<close> returns true and leaves the world as
  it is. With one, the state file is gone when \<open>stop\<close> returns, whatever the termination
  attempt did: the process tree kill, the signal, the wait and the forced kill stand
  under no hypothesis.
\<close>

theorem stop_removes_state:
  "(getPidInfo w = None \<longrightarrow> stop env timeout w = (True, w))
   \<and> (getPidInfo w \<noteq> None \<longrightarrow> pid_file (snd (stop env timeout w)) = None)"
  by (auto simp: stop_def removePidFile_def split: option.splits)

theorem stop_removes_state_witness:
  "stop example_env 300 empty_world = (True, empty_world)
   \<and> stop example_env 300 (world_with_worker 4242 37777 0)
       = (True, empty_world\<lparr>clock := 300,
                  actions := [Signal SIGKILL 4242, Signal SIGTERM 4242]\<rparr>)
   \<and> stop example_env 300 (world_with_worker 999 37777 0)
       = (True, empty_world\<lparr>actions := [Signal SIGKILL 999, Signal SIGTERM 999]\<rparr>)
   \<and> stop (example_env\<lparr>platform := Win32\<rparr>) 300 (world_with_worker 999 37777 0)
       = (True, empty_world\<lparr>actions := [Taskkill 999]\<rparr>)"
  using stop_removes_state [of empty_world example_env 300]
        stop_removes_state [of "world_with_worker 4242 37777 0" example_env 300]
  by (simp add: stop_def terminate_def send_signal_def force_kill_def waitForExit_def
        waitForExit_loop.simps removePidFile_def getPidInfo_def isProcessAlive_def sleep_def pause_def
        PROCESS_EXIT_CHECK_INTERVAL_MS_def
        world_with_worker_def worker_doc_def pid_doc_def empty_world_def example_env_def)

text \<open>
  Claim C10. \<open>stop\<close> returns true for every environment, timeout and world: with no
  WorkerState, after a graceful exit, after the wait timed out and the forced kill was
  sent, and when the forced kill itself failed.
\<close>

theorem stop_returns_true: "fst (stop env timeout w) = True"
  by (simp add: stop_def split: option.splits)

theorem stop_returns_true_witness:
  "fst (stop example_env 300 (world_with_worker 4242 37777 0)) = True
   \<and> fst (stop example_env 300 (world_with_worker 999 37777 0)) = True
   \<and> fst (stop example_env 300 empty_world) = True"
  using stop_returns_true [of example_env 300 "world_with_worker 4242 37777 0"]
        stop_returns_true [of example_env 300 "world_with_worker 999 37777 0"]
        stop_returns_true [of example_env 300 empty_world]
  by simp

subsection \<open>The health prober\<close>

lemma clock_pause [simp]: "clock (pause env d w) = clock w + d"
  by (simp add: pause_def split: prod.splits)

lemma actions_pause [simp]: "actions (pause env d w) = actions w"
  by (simp add: pause_def split: prod.splits)

lemma clock_sleep: "clock (sleep env ms w) = clock w + ms + int (lag env (clock w))"
  by (simp add: sleep_def)

lemma actions_sleep [simp]: "actions (sleep env ms w) = actions w"
  by (simp add: sleep_def)

lemma clock_fetch_readiness: "clock w \<le> clock (snd (fetch_readiness env port w))"
  by (simp add: fetch_readiness_def Let_def HEALTH_CHECK_FETCH_TIMEOUT_MS_def split: prod.splits)

lemma actions_fetch_readiness:
  "actions (snd (fetch_readiness env port w)) = Request port (clock w) # actions w"
  by (simp add: fetch_readiness_def Let_def split: prod.splits)

lemma clock_poll_round: "clock w + 200 \<le> clock (poll_round env port w)"
  using clock_fetch_readiness [of w env port]
  by (simp add: poll_round_def clock_sleep HEALTH_CHECK_INTERVAL_MS_def)

lemma actions_poll_round:
  "actions (poll_round env port w) = Request port (clock w) # actions w"
  by (simp add: poll_round_def actions_fetch_readiness)

lemma waitForHealth_loop_unready:
  assumes "clock w - startTime < adjustedTimeout" and "isProcessAlive env w pid"
    and "\<not> fst (fetch_readiness env port w)"
  shows "waitForHealth_loop env pid port startTime adjustedTimeout w
           = waitForHealth_loop env pid port startTime adjustedTimeout (poll_round env port w)"
  using assms
  by (subst waitForHealth_loop.simps)
     (cases "fetch_readiness env port w", simp add: poll_round_def)

lemma waitForHealth_loop_skip:
  "unready_rounds env pid port startTime adjustedTimeout k w \<Longrightarrow>
   waitForHealth_loop env pid port startTime adjustedTimeout w
     = waitForHealth_loop env pid port startTime adjustedTimeout ((poll_round env port ^^ k) w)"
proof (induction k arbitrary: w)
  case 0
  show ?case by simp
next
  case (Suc k)
  then have "waitForHealth_loop env pid port startTime adjustedTimeout w
               = waitForHealth_loop env pid port startTime adjustedTimeout (poll_round env port w)"
    by (simp add: waitForHealth_loop_unready)
  also have "\<dots> = waitForHealth_loop env pid port startTime adjustedTimeout
                     ((poll_round env port ^^ k) (poll_round env port w))"
    using Suc by simp
  finally show ?case by (simp add: funpow_swap1)
qed

lemma fetch_unready:
  "fst (http env (clock w) port) = NetworkError
     \<or> HEALTH_CHECK_FETCH_TIMEOUT_MS \<le> int (snd (http env (clock w) port))
   \<Longrightarrow> \<not> fst (fetch_readiness env port w)"
  by (auto simp: fetch_readiness_def Let_def response_ok_def split: prod.splits)

text \<open>The definitions a run of the prober on a concrete environment unfolds.\<close>

lemmas eval_defs =
  waitForHealth_def adjusted_timeout_def waitForHealth_loop.simps fetch_readiness_def
  response_ok_def sleep_def pause_def isProcessAlive_def failure_def
  timeout_msg_def died_msg_def number_string_def show_int_def digit_def
  HEALTH_CHECK_TIMEOUT_MS_def HEALTH_CHECK_INTERVAL_MS_def HEALTH_CHECK_FETCH_TIMEOUT_MS_def
  empty_world_def example_env_def

text \<open>
  Claim C6, as the code has it. Let the polling loop of \<open>waitForHealth\<close> go through
  \<open>k\<close> rounds in which the worker is alive and the readiness request does not reach a
  2xx answer, and let the next round start within the deadline. If the liveness probe then
  fails, \<open>waitForHealth\<close> returns at once, in the world of that probe, the failure whose
  message is \<open>died_msg\<close>: the text "Process died during startup", followed on Windows
  by troubleshooting steps that mention the port; the pid is no part of it. If the probe
  succeeds and the request reaches a 2xx answer, it returns success with the pid. A refused
  connection and a request that outlasts the per-attempt timeout are rounds of the first
  kind: they do not reach a 2xx answer, and polling goes on.
\<close>

theorem waitForHealth_outcomes:
  assumes "unready_rounds env pid port (clock w) (adjusted_timeout env timeoutMs) k w"
    and "clock ((poll_round env port ^^ k) w) - clock w < adjusted_timeout env timeoutMs"
  shows "(\<not> isProcessAlive env ((poll_round env port ^^ k) w) pid \<longrightarrow>
            waitForHealth env pid port timeoutMs w
              = (failure (died_msg env port), (poll_round env port ^^ k) w))
       \<and> (isProcessAlive env ((poll_round env port ^^ k) w) pid
            \<and> fst (fetch_readiness env port ((poll_round env port ^^ k) w)) \<longrightarrow>
            waitForHealth env pid port timeoutMs w
              = (\<lparr>lr_success = True, lr_pid = Some pid, lr_error = None\<rparr>,
                 snd (fetch_readiness env port ((poll_round env port ^^ k) w))))
       \<and> (fst (http env (clock v) port) = NetworkError
            \<or> HEALTH_CHECK_FETCH_TIMEOUT_MS \<le> int (snd (http env (clock v) port))
          \<longrightarrow> \<not> fst (fetch_readiness env port v))
       \<and> (platform env \<noteq> Win32 \<longrightarrow> died_msg env port = ''Process died during startup'')
       \<and> (platform env = Win32 \<longrightarrow>
            died_msg env port = ''Process died during startup'' @ troubleshooting env port)"
proof -
  let ?wk = "(poll_round env port ^^ k) w"
  let ?adj = "adjusted_timeout env timeoutMs"
  have skip: "waitForHealth env pid port timeoutMs w
                = waitForHealth_loop env pid port (clock w) ?adj ?wk"
    using assms(1) by (simp add: waitForHealth_def Let_def waitForHealth_loop_skip)
  have dead: "\<not> isProcessAlive env ?wk pid \<Longrightarrow>
      waitForHealth_loop env pid port (clock w) ?adj ?wk = (failure (died_msg env port), ?wk)"
    using assms(2) by (subst waitForHealth_loop.simps) simp
  have ready: "isProcessAlive env ?wk pid \<Longrightarrow> fst (fetch_readiness env port ?wk) \<Longrightarrow>
      waitForHealth_loop env pid port (clock w) ?adj ?wk
        = (\<lparr>lr_success = True, lr_pid = Some pid, lr_error = None\<rparr>,
           snd (fetch_readiness env port ?wk))"
    using assms(2)
    by (subst waitForHealth_loop.simps) (cases "fetch_readiness env port ?wk", simp)
  show ?thesis
    using skip dead ready fetch_unready [of env v port] by (simp add: died_msg_def)
qed

theorem waitForHealth_outcomes_witness:
  "waitForHealth slow_start_env 4242 37777 HEALTH_CHECK_TIMEOUT_MS empty_world
     = (\<lparr>lr_success = True, lr_pid = Some 4242, lr_error = None\<rparr>,
        empty_world\<lparr>clock := 1410,
          actions := [Request 37777 1405, Request 37777 205, Request 37777 0]\<rparr>)
   \<and> waitForHealth dying_env 4242 37777 HEALTH_CHECK_TIMEOUT_MS empty_world
     = (\<lparr>lr_success = False, lr_pid = None, lr_error = Some ''Process died during startup''\<rparr>,
        empty_world\<lparr>clock := 410, actions := [Request 37777 205, Request 37777 0]\<rparr>)"
  using waitForHealth_outcomes [of slow_start_env 4242 37777 empty_world HEALTH_CHECK_TIMEOUT_MS "Suc (Suc 0)"]
        waitForHealth_outcomes [of dying_env 4242 37777 empty_world HEALTH_CHECK_TIMEOUT_MS "Suc (Suc 0)"]
  by (simp add: eval_defs poll_round_def slow_start_env_def dying_env_def Let_def)

text \<open>The message of the failure does not name the dead process: for pid 999 it is
  "Process died during startup", in which "999" does not occur.\<close>

theorem waitForHealth_message_counterexample:
  "fst (waitForHealth example_env 999 37777 HEALTH_CHECK_TIMEOUT_MS empty_world)
     = failure ''Process died during startup''
   \<and> \<not> names_pid (fst (waitForHealth example_env 999 37777 HEALTH_CHECK_TIMEOUT_MS empty_world)) 999"
  by (simp add: eval_defs names_pid_def sublist_code prefix_code)

lemma unready_rounds_bound:
  "unready_rounds env pid port startTime adjustedTimeout k w \<Longrightarrow>
   k \<le> nat ((startTime + adjustedTimeout - clock w + 199) div 200)"
proof (induction k arbitrary: w)
  case 0
  show ?case by simp
next
  case (Suc k)
  then have within: "clock w - startTime < adjustedTimeout"
    and rest: "unready_rounds env pid port startTime adjustedTimeout k (poll_round env port w)"
    by simp_all
  from Suc.IH [OF rest]
  have "int k \<le> (startTime + adjustedTimeout - clock (poll_round env port w) + 199) div 200 \<or> k = 0"
    by linarith
  with clock_poll_round [of w env port] within show ?case
    by (cases "k = 0") (auto simp: nat_le_iff zdiv_mono1 le_div_geq)
qed

lemma waitForHealth_loop_timeout:
  assumes "unready_rounds env pid port startTime adjustedTimeout k w"
    and "adjustedTimeout \<le> clock ((poll_round env port ^^ k) w) - startTime"
  shows "waitForHealth_loop env pid port startTime adjustedTimeout w
           = (failure (timeout_msg env port adjustedTimeout), (poll_round env port ^^ k) w)"
proof -
  have "waitForHealth_loop env pid port startTime adjustedTimeout ((poll_round env port ^^ k) w)
          = (failure (timeout_msg env port adjustedTimeout), (poll_round env port ^^ k) w)"
    using assms(2) by (subst waitForHealth_loop.simps) simp
  with waitForHealth_loop_skip [OF assms(1)] show ?thesis by simp
qed

lemma waitForHealth_loop_result:
  "fst (waitForHealth_loop env pid port startTime adjustedTimeout w)
     \<in> {\<lparr>lr_success = True, lr_pid = Some pid, lr_error = None\<rparr>,
        failure (died_msg env port), failure (timeout_msg env port adjustedTimeout)}"
proof (induction env pid port startTime adjustedTimeout w rule: waitForHealth_loop.induct)
  case (1 env pid port startTime adjustedTimeout w)
  show ?case
  proof (cases "clock w - startTime < adjustedTimeout \<and> isProcessAlive env w pid")
    case False
    then show ?thesis by (subst waitForHealth_loop.simps) auto
  next
    case True
    obtain b w1 where f: "fetch_readiness env port w = (b, w1)"
      by (cases "fetch_readiness env port w")
    with True "1.IH" show ?thesis
      by (subst waitForHealth_loop.simps) (cases b; auto)
  qed
qed

lemma waitForHealth_loop_log:
  "\<exists>new. actions (snd (waitForHealth_loop env pid port startTime adjustedTimeout w))
            = new @ actions w
         \<and> length new \<le> nat ((startTime + adjustedTimeout - clock w + 199) div 200)
         \<and> (\<forall>a\<in>set new. \<exists>t. a = Request port t \<and> clock w \<le> t
                                \<and> t - startTime < adjustedTimeout)"
proof (induction env pid port startTime adjustedTimeout w rule: waitForHealth_loop.induct)
  case (1 env pid port startTime adjustedTimeout w)
  show ?case
  proof (cases "clock w - startTime < adjustedTimeout \<and> isProcessAlive env w pid")
    case False
    then show ?thesis by (subst waitForHealth_loop.simps) auto
  next
    case True
    then have within: "clock w - startTime < adjustedTimeout" by simp
    obtain b w1 where f: "fetch_readiness env port w = (b, w1)"
      by (cases "fetch_readiness env port w")
    have a1: "actions w1 = Request port (clock w) # actions w"
      using actions_fetch_readiness [of env port w] f by simp
    have one: "1 \<le> nat ((startTime + adjustedTimeout - clock w + 199) div 200)"
      using within by (simp add: nat_le_iff pos_imp_zdiv_pos_iff)
    show ?thesis
    proof (cases b)
      case True
      with \<open>clock w - startTime < adjustedTimeout \<and> isProcessAlive env w pid\<close> f
      have "actions (snd (waitForHealth_loop env pid port startTime adjustedTimeout w))
              = [Request port (clock w)] @ actions w"
        by (subst waitForHealth_loop.simps) (simp add: a1)
      moreover have "length [Request port (clock w)]
                       \<le> nat ((startTime + adjustedTimeout - clock w + 199) div 200)"
        using one by simp
      ultimately show ?thesis using within by fastforce
    next
      case False
      let ?w2 = "sleep env HEALTH_CHECK_INTERVAL_MS w1"
      have c2: "clock w + 200 \<le> clock ?w2"
        using clock_poll_round [of w env port] f by (simp add: poll_round_def)
      from "1.IH" [of b w1] True False f
      obtain new where n1: "actions (snd (waitForHealth_loop env pid port startTime
                                            adjustedTimeout ?w2)) = new @ actions ?w2"
        and n2: "length new \<le> nat ((startTime + adjustedTimeout - clock ?w2 + 199) div 200)"
        and n3: "\<forall>a\<in>set new. \<exists>t. a = Request port t \<and> clock ?w2 \<le> t
                                   \<and> t - startTime < adjustedTimeout"
        by auto
      have unfold: "waitForHealth_loop env pid port startTime adjustedTimeout w
                      = waitForHealth_loop env pid port startTime adjustedTimeout ?w2"
        using True False f by (subst waitForHealth_loop.simps) simp
      have "(startTime + adjustedTimeout - clock ?w2 + 199) div 200
              \<le> (startTime + adjustedTimeout - clock w + 199) div 200 - 1"
        using c2 zdiv_mono1 [of "startTime + adjustedTimeout - clock ?w2 + 199"
                                "startTime + adjustedTimeout - clock w + 199 - 200" 200]
        by simp
      with n2 one have len: "length (new @ [Request port (clock w)])
                               \<le> nat ((startTime + adjustedTimeout - clock w + 199) div 200)"
        by simp
      have "actions (snd (waitForHealth_loop env pid port startTime adjustedTimeout w))
              = (new @ [Request port (clock w)]) @ actions w"
        using unfold n1 a1 by simp
      moreover have "\<forall>a\<in>set (new @ [Request port (clock w)]).
                        \<exists>t. a = Request port t \<and> clock w \<le> t \<and> t - startTime < adjustedTimeout"
        using n3 c2 within by fastforce
      ultimately show ?thesis using len by blast
    qed
  qed
qed

lemma clock_fetch_readiness_upper:
  "clock (snd (fetch_readiness env port w)) \<le> clock w + 1000"
  by (simp add: fetch_readiness_def Let_def HEALTH_CHECK_FETCH_TIMEOUT_MS_def split: prod.splits)

lemma waitForHealth_loop_clock:
  assumes late: "\<forall>t. lag env t \<le> L"
  shows "clock (snd (waitForHealth_loop env pid port startTime adjustedTimeout w))
           < max (clock w + 1) (startTime + adjustedTimeout + 1200 + int L)"
  using late
proof (induction env pid port startTime adjustedTimeout w rule: waitForHealth_loop.induct)
  case (1 env pid port startTime adjustedTimeout w)
  show ?case
  proof (cases "clock w - startTime < adjustedTimeout \<and> isProcessAlive env w pid")
    case False
    then show ?thesis by (subst waitForHealth_loop.simps) auto
  next
    case True
    then have within: "clock w - startTime < adjustedTimeout" by simp
    obtain b w1 where f: "fetch_readiness env port w = (b, w1)"
      by (cases "fetch_readiness env port w")
    have c1: "clock w1 \<le> clock w + 1000"
      using clock_fetch_readiness_upper [of env port w] f by simp
    show ?thesis
    proof (cases b)
      case True
      with \<open>clock w - startTime < adjustedTimeout \<and> isProcessAlive env w pid\<close> f
      have "snd (waitForHealth_loop env pid port startTime adjustedTimeout w) = w1"
        by (subst waitForHealth_loop.simps) simp
      with c1 within show ?thesis by simp
    next
      case False
      let ?w2 = "sleep env HEALTH_CHECK_INTERVAL_MS w1"
      have "int (lag env (clock w1)) \<le> int L"
        using "1.prems" by simp
      with c1 have c2: "clock ?w2 \<le> clock w + 1200 + int L"
        by (simp add: clock_sleep HEALTH_CHECK_INTERVAL_MS_def)
      have unfold: "waitForHealth_loop env pid port startTime adjustedTimeout w
                      = waitForHealth_loop env pid port startTime adjustedTimeout ?w2"
        using True False f by (subst waitForHealth_loop.simps) simp
      from "1.IH" [of b w1] True False f "1.prems"
      have "clock (snd (waitForHealth_loop env pid port startTime adjustedTimeout ?w2))
              < max (clock ?w2 + 1) (startTime + adjustedTimeout + 1200 + int L)"
        by auto
      with c2 within unfold show ?thesis by simp
    qed
  qed
qed

text \<open>One round, and the end, of the loop on the example machine with the default
  deadline: the worker is alive and nothing answers.\<close>

lemma example_adjusted: "adjusted_timeout example_env HEALTH_CHECK_TIMEOUT_MS = 10000"
  by (simp add: adjusted_timeout_def HEALTH_CHECK_TIMEOUT_MS_def example_env_def)

lemma example_round:
  assumes "clock w < 10000"
  shows "waitForHealth_loop example_env 4242 37777 0 10000 w
     = waitForHealth_loop example_env 4242 37777 0 10000
         (w\<lparr>clock := clock w + 205, actions := Request 37777 (clock w) # actions w\<rparr>)"
proof -
  have alive: "isProcessAlive example_env w 4242"
    by (simp add: isProcessAlive_def example_env_def)
  have round: "sleep example_env HEALTH_CHECK_INTERVAL_MS (snd (fetch_readiness example_env 37777 w))
      = w\<lparr>clock := clock w + 205, actions := Request 37777 (clock w) # actions w\<rparr>"
    and unready: "\<not> fst (fetch_readiness example_env 37777 w)"
    by (simp_all add: fetch_readiness_def response_ok_def sleep_def pause_def
        HEALTH_CHECK_INTERVAL_MS_def HEALTH_CHECK_FETCH_TIMEOUT_MS_def example_env_def)
  from waitForHealth_loop_unready [of w 0 10000 example_env 4242 37777] assms alive unready
  show ?thesis by (simp add: poll_round_def round)
qed

lemma example_timeout:
  assumes "\<not> clock w < 10000"
  shows "waitForHealth_loop example_env 4242 37777 0 10000 w
     = (failure ''Readiness check timed out after 10000ms'', w)"
proof -
  have "timeout_msg example_env 37777 10000 = ''Readiness check timed out after 10000ms''"
    by (simp add: timeout_msg_def number_string_def show_int_def digit_def example_env_def)
  with assms show ?thesis by (subst waitForHealth_loop.simps) simp
qed

text \<open>
  Claim C9, as the code has it. The polling loop of \<open>waitForHealth\<close> is bounded by its
  deadline, which is \<open>timeoutMs\<close>, doubled on Windows: 10000 ms by default, 20000 ms
  on Windows. The function always returns: it is total, its termination proved from the
  sleep of at least 200 ms that ends every round. The deadline is tested at the head of a
  round only. No more than one round per 200 ms of the deadline can find the worker alive
  and not ready; after such rounds, once the deadline has elapsed at the head of a round,
  the result is the failure with \<open>timeout_msg\<close>; all that the call adds to the world's
  log are readiness requests sent before the deadline, at most one per 200 ms of the
  deadline; and the result is always one of three: success, the failure for a dead
  process, the failure for the timeout. The return itself may come after the deadline: by
  less than the round in progress, a request of at most 1000 ms and a sleep of 200 ms, and
  the lateness \<open>L\<close> of the timers.
\<close>

theorem waitForHealth_deadline:
  "adjusted_timeout env HEALTH_CHECK_TIMEOUT_MS = (if platform env = Win32 then 20000 else 10000)
   \<and> (unready_rounds env pid port (clock w) (adjusted_timeout env timeoutMs) k w
        \<longrightarrow> k \<le> nat ((adjusted_timeout env timeoutMs + 199) div 200))
   \<and> (unready_rounds env pid port (clock w) (adjusted_timeout env timeoutMs) k w
        \<and> adjusted_timeout env timeoutMs \<le> clock ((poll_round env port ^^ k) w) - clock w
        \<longrightarrow> waitForHealth env pid port timeoutMs w
              = (failure (timeout_msg env port (adjusted_timeout env timeoutMs)),
                 (poll_round env port ^^ k) w))
   \<and> (\<exists>new. actions (snd (waitForHealth env pid port timeoutMs w)) = new @ actions w
          \<and> length new \<le> nat ((adjusted_timeout env timeoutMs + 199) div 200)
          \<and> (\<forall>a\<in>set new. \<exists>t. a = Request port t \<and> clock w \<le> t
                                 \<and> t - clock w < adjusted_timeout env timeoutMs))
   \<and> fst (waitForHealth env pid port timeoutMs w)
        \<in> {\<lparr>lr_success = True, lr_pid = Some pid, lr_error = None\<rparr>,
           failure (died_msg env port),
           failure (timeout_msg env port (adjusted_timeout env timeoutMs))}
   \<and> ((\<forall>t. lag env t \<le> L)
        \<longrightarrow> clock (snd (waitForHealth env pid port timeoutMs w)) - clock w
              < max 0 (adjusted_timeout env timeoutMs) + 1200 + int L)"
proof -
  let ?adj = "adjusted_timeout env timeoutMs"
  have "adjusted_timeout env HEALTH_CHECK_TIMEOUT_MS
          = (if platform env = Win32 then 20000 else 10000)"
    by (simp add: adjusted_timeout_def HEALTH_CHECK_TIMEOUT_MS_def)
  moreover have "unready_rounds env pid port (clock w) ?adj k w
                   \<longrightarrow> k \<le> nat ((?adj + 199) div 200)"
    using unready_rounds_bound [of env pid port "clock w" ?adj k w] by simp
  moreover have "unready_rounds env pid port (clock w) ?adj k w
                   \<and> ?adj \<le> clock ((poll_round env port ^^ k) w) - clock w
                 \<longrightarrow> waitForHealth env pid port timeoutMs w
                       = (failure (timeout_msg env port ?adj), (poll_round env port ^^ k) w)"
    by (simp add: waitForHealth_def Let_def waitForHealth_loop_timeout)
  moreover have "\<exists>new. actions (snd (waitForHealth env pid port timeoutMs w)) = new @ actions w
                   \<and> length new \<le> nat ((?adj + 199) div 200)
                   \<and> (\<forall>a\<in>set new. \<exists>t. a = Request port t \<and> clock w \<le> t
                                          \<and> t - clock w < ?adj)"
    using waitForHealth_loop_log [of env pid port "clock w" ?adj w]
    by (simp add: waitForHealth_def Let_def)
  moreover have "fst (waitForHealth env pid port timeoutMs w)
                   \<in> {\<lparr>lr_success = True, lr_pid = Some pid, lr_error = None\<rparr>,
                      failure (died_msg env port), failure (timeout_msg env port ?adj)}"
    using waitForHealth_loop_result [of env pid port "clock w" ?adj w]
    by (simp add: waitForHealth_def Let_def)
  moreover have "(\<forall>t. lag env t \<le> L)
                   \<longrightarrow> clock (snd (waitForHealth env pid port timeoutMs w)) - clock w
                         < max 0 ?adj + 1200 + int L"
  proof
    assume "\<forall>t. lag env t \<le> L"
    from waitForHealth_loop_clock [OF this, of pid port "clock w" ?adj w]
    show "clock (snd (waitForHealth env pid port timeoutMs w)) - clock w
            < max 0 ?adj + 1200 + int L"
      by (simp add: waitForHealth_def Let_def max_def split: if_splits)
  qed
  ultimately show ?thesis by blast
qed

theorem waitForHealth_deadline_witness:
  "waitForHealth lagging_env 4242 37777 HEALTH_CHECK_TIMEOUT_MS empty_world
     = (\<lparr>lr_success = False, lr_pid = None,
         lr_error = Some ''Readiness check timed out after 10000ms''\<rparr>,
        empty_world\<lparr>clock := 10000, actions := [Request 37777 5000, Request 37777 0]\<rparr>)
   \<and> clock (snd (waitForHealth (lagging_env\<lparr>platform := Win32\<rparr>) 4242 37777
                    HEALTH_CHECK_TIMEOUT_MS empty_world)) = 20000"
  using waitForHealth_deadline
          [of lagging_env 4242 37777 empty_world HEALTH_CHECK_TIMEOUT_MS "Suc (Suc 0)" 4795]
        waitForHealth_deadline
          [of "lagging_env\<lparr>platform := Win32\<rparr>" 4242 37777 empty_world
              HEALTH_CHECK_TIMEOUT_MS "Suc (Suc (Suc (Suc 0)))" 4795]
  by (simp add: eval_defs poll_round_def lagging_env_def Let_def)

text \<open>The loop does not end within the deadline: with exact timers and a worker that is
  alive and never ready, a round takes 205 ms, the round that starts at 9840 ms is the
  last one within the default deadline of 10000 ms, and the call returns at 10045 ms.\<close>

theorem waitForHealth_returns_late_counterexample:
  "adjusted_timeout example_env HEALTH_CHECK_TIMEOUT_MS = 10000
   \<and> clock empty_world = 0
   \<and> fst (waitForHealth example_env 4242 37777 HEALTH_CHECK_TIMEOUT_MS empty_world)
       = failure ''Readiness check timed out after 10000ms''
   \<and> clock (snd (waitForHealth example_env 4242 37777 HEALTH_CHECK_TIMEOUT_MS empty_world))
       = 10045"
  by (simp add: waitForHealth_def example_adjusted example_round example_timeout empty_world_def)

text \<open>The loop does not end within the deadline: with exact timers and a worker that is
  alive and never ready, a round takes 205 ms, the round that starts at 9840 ms is the
  last one within the default deadline of 10000 ms, and the call returns at 10045 ms.\<close>

subsection \<open>start\<close>






















end
